theory Spec2Isabelle
  imports Complex_Main
begin

section \<open>Flower Hub backend: the order placement and pricing pipeline\<close>

text \<open>
  A shallow embedding of \<^verbatim>\<open>src/services/order.service.ts\<close> (createOrder,
  updateOrder, cancelOrder, validateCoupon) and of the pricing helpers
  calculateTax and calculateShipping of \<^verbatim>\<open>src/utils/auth.ts\<close>.

  Conventions of the embedding.
  \<^item> A JavaScript \<^verbatim>\<open>number\<close> holding money is an exact rational (\<open>rat\<close>): the
    statements are about the decimal values, not about their binary
    floating-point approximations. Integer columns (stockCount, quantity,
    usedCount, usageLimit) are \<open>int\<close>.
  \<^item> A \<^verbatim>\<open>Date\<close> is an \<open>int\<close> (milliseconds since the epoch);
    \<^verbatim>\<open>new Date()\<close> is read from the environment.
  \<^item> The data store reached through the ORM client is an explicit record of
    tables. Every service function takes the store and returns the store as it
    is when the function returns or throws: the source wraps nothing in a
    transaction, so the writes made before a throw persist.
  \<^item> A thrown exception is \<open>Inl\<close> of an \<open>error\<close>; \<^verbatim>\<open>update\<close> of the ORM
    client on a row that does not exist throws its record-not-found error.
\<close>

subsection \<open>Data model\<close>

type_synonym ident = string
type_synonym date = int

datatype OrderStatus =
  PENDING | CONFIRMED | PROCESSING | SHIPPED | DELIVERED | CANCELLED | REFUNDED

datatype PaymentStatus =
  PAYMENT_PAID | PAYMENT_PENDING | PAYMENT_FAILED | PAYMENT_REFUNDED

datatype PaymentMethod =
  CARD | PAYPAL | APPLE_PAY | GOOGLE_PAY | STRIPE | CASH_ON_DELIVERY

datatype CouponType = percentage | fixed

datatype AddressType = SHIPPING | BILLING

text \<open>
  \<open>AppError message statusCode\<close> is the service's own exception;
  \<open>RecordNotFound\<close> is the one the ORM client throws from \<^verbatim>\<open>update\<close> when no
  row matches the \<^verbatim>\<open>where\<close> clause.
\<close>

datatype error =
  AppError string nat
| RecordNotFound string

record Product =
  name :: string
  price :: rat
  stockCount :: int
  inStock :: bool

text \<open>
  The coupon row. The three optional columns are \<open>None\<close> when the column is
  null. The field \<^verbatim>\<open>type\<close> is \<open>coupon_type\<close> and \<^verbatim>\<open>value\<close> is
  \<open>coupon_value\<close> here.
\<close>

record Coupon =
  code :: string
  coupon_type :: CouponType
  coupon_value :: rat
  minimumAmount :: "rat option"
  maximumDiscount :: "rat option"
  usageLimit :: "int option"
  usedCount :: int
  isActive :: bool
  validFrom :: date
  validUntil :: date

record Address =
  firstName :: string
  lastName :: string
  street :: string
  city :: string
  state :: string
  zipCode :: string
  country :: string
  phone :: "string option"
  isDefault :: "bool option"

record AddressRow =
  address_id :: ident
  address_type :: AddressType
  address_userId :: ident
  address_data :: Address

record CreateOrderItemRequest =
  productId :: ident
  quantity :: int
  selectedColor :: "string option"
  selectedSize :: "string option"

record CreateOrderRequest =
  items :: "CreateOrderItemRequest list"
  shippingAddress :: Address
  billingAddress :: Address
  request_notes :: "string option"
  couponCode :: "string option"

text \<open>An order item before it has an order: what createOrder pushes to \<^verbatim>\<open>orderItems\<close>.\<close>

record OrderItemData =
  item_productId :: ident
  item_quantity :: int
  item_price :: rat
  item_selectedColor :: "string option"
  item_selectedSize :: "string option"

record OrderItem = OrderItemData +
  item_orderId :: ident

record Order =
  order_id :: ident
  orderNumber :: string
  userId :: ident
  subtotal :: rat
  shipping :: rat
  tax :: rat
  discount :: rat
  total :: rat
  status :: OrderStatus
  paymentMethod :: PaymentMethod
  paymentStatus :: PaymentStatus
  order_notes :: "string option"
  shippingAddressId :: ident
  billingAddressId :: ident
  trackingNumber :: "string option"
  estimatedDelivery :: "date option"

record UpdateOrderRequest =
  patch_status :: "OrderStatus option"
  patch_trackingNumber :: "string option"
  patch_estimatedDelivery :: "date option"
  patch_notes :: "string option"

text \<open>
  The store: products by id, coupons by their unique code, orders by id; the
  address and order-item tables are lists of rows in insertion order.
\<close>

record db =
  products :: "ident \<rightharpoonup> Product"
  coupons :: "string \<rightharpoonup> Coupon"
  addresses :: "AddressRow list"
  orders :: "ident \<rightharpoonup> Order"
  orderItems :: "OrderItem list"

text \<open>
  What createOrder reads from outside the store: the clock, the result of
  generateOrderNumber() and the ids the store generates for the three rows
  it creates.
\<close>

record env =
  now :: date
  newOrderNumber :: string
  newShippingAddressId :: ident
  newBillingAddressId :: ident
  newOrderId :: ident

subsection \<open>Pricing helpers (src/utils/auth.ts, lines 188-198)\<close>

text \<open>\<^verbatim>\<open>Math.round\<close>: the nearest integer, a tie going towards plus infinity.\<close>

definition Math_round :: "rat \<Rightarrow> int" where
  "Math_round x = \<lfloor>x + 1 / 2\<rfloor>"

definition defaultTaxRate :: rat where
  "defaultTaxRate = 8 / 100"

definition calculateTax :: "rat \<Rightarrow> rat \<Rightarrow> rat" where
  "calculateTax amount taxRate = of_int (Math_round (amount * taxRate * 100)) / 100"

definition calculateShipping :: "rat \<Rightarrow> rat" where
  "calculateShipping amount =
     (if amount \<ge> 50 then 0
      else if amount \<ge> 25 then 599 / 100
      else 999 / 100)"



subsection \<open>Strings\<close>

text \<open>\<^verbatim>\<open>toUpperCase\<close> on the ASCII letters; every other character is kept.\<close>

definition upperChar :: "char \<Rightarrow> char" where
  "upperChar c =
     (case map_of (zip ''abcdefghijklmnopqrstuvwxyz'' ''ABCDEFGHIJKLMNOPQRSTUVWXYZ'') c of
        None \<Rightarrow> c
      | Some u \<Rightarrow> u)"

definition toUpperCase :: "string \<Rightarrow> string" where
  "toUpperCase s = map upperChar s"

text \<open>Truthiness of an optional string: \<^verbatim>\<open>undefined\<close> and \<^verbatim>\<open>''\<close> are falsy.\<close>

definition truthyString :: "string option \<Rightarrow> bool" where
  "truthyString s = (case s of None \<Rightarrow> False | Some t \<Rightarrow> t \<noteq> [])"

text \<open>\<^verbatim>\<open>x || null\<close> on an optional string.\<close>

definition orNull :: "string option \<Rightarrow> string option" where
  "orNull s = (if truthyString s then s else None)"

subsection \<open>The ORM client's operations used by the service\<close>

definition address_create :: "ident \<Rightarrow> AddressType \<Rightarrow> ident \<Rightarrow> Address \<Rightarrow> db \<Rightarrow> db" where
  "address_create aid ty uid a s =
     s\<lparr>addresses := addresses s @
        [\<lparr>address_id = aid, address_type = ty, address_userId = uid, address_data = a\<rparr>]\<rparr>"

text \<open>
  \<^verbatim>\<open>prisma.product.update({ where: { id }, data: { stockCount: { increment: d } } })\<close>;
  a decrement is the increment by the negated amount. It is a relative update
  with no lower bound.
\<close>

definition product_increment_stock :: "ident \<Rightarrow> int \<Rightarrow> db \<Rightarrow> (error + unit) \<times> db" where
  "product_increment_stock pid d s =
     (case products s pid of
        None \<Rightarrow> (Inl (RecordNotFound ''Product''), s)
      | Some p \<Rightarrow>
          (Inr (), s\<lparr>products := (products s)(pid \<mapsto> p\<lparr>stockCount := stockCount p + d\<rparr>)\<rparr>))"

text \<open>
  \<^verbatim>\<open>prisma.coupon.update({ where: { code }, data: { usedCount: { increment: 1 } } })\<close>:
  the lookup is by the code as given, with no change of case.
\<close>

definition coupon_increment_used :: "string \<Rightarrow> db \<Rightarrow> (error + unit) \<times> db" where
  "coupon_increment_used c s =
     (case coupons s c of
        None \<Rightarrow> (Inl (RecordNotFound ''Coupon''), s)
      | Some cp \<Rightarrow>
          (Inr (), s\<lparr>coupons := (coupons s)(c \<mapsto> cp\<lparr>usedCount := usedCount cp + 1\<rparr>)\<rparr>))"

text \<open>
  \<^verbatim>\<open>prisma.order.create\<close> with the nested \<^verbatim>\<open>items: { create: orderItems }\<close>: the
  order row and one order-item row per element, each carrying the order's id.
\<close>

definition order_create :: "Order \<Rightarrow> OrderItemData list \<Rightarrow> db \<Rightarrow> db" where
  "order_create ord its s =
     s\<lparr>orders := (orders s)(order_id ord \<mapsto> ord),
       orderItems := orderItems s @
         map (\<lambda>d. OrderItemData.extend d (OrderItem.fields (order_id ord))) its\<rparr>"

definition order_update :: "ident \<Rightarrow> (Order \<Rightarrow> Order) \<Rightarrow> db \<Rightarrow> (error + Order) \<times> db" where
  "order_update oid f s =
     (case orders s oid of
        None \<Rightarrow> (Inl (RecordNotFound ''Order''), s)
      | Some ord \<Rightarrow> (Inr (f ord), s\<lparr>orders := (orders s)(oid \<mapsto> f ord)\<rparr>))"

subsection \<open>validateCoupon (order.service.ts, lines 549-581)\<close>

text \<open>
  The two guards on optional columns are JavaScript truthiness tests.
  \<^verbatim>\<open>coupon.minimumAmount\<close> is the ORM's decimal object (the source calls
  \<^verbatim>\<open>.toNumber()\<close> on it): an object is truthy whatever number it holds, so the
  guard is on the column being non-null. \<^verbatim>\<open>coupon.usageLimit\<close> is a plain
  number: 0 is falsy, so a limit of 0 switches the check off.
\<close>

definition validateCoupon :: "date \<Rightarrow> string \<Rightarrow> rat \<Rightarrow> db \<Rightarrow> Coupon option" where
  "validateCoupon today c amount s =
     (case coupons s (toUpperCase c) of
        None \<Rightarrow> None
      | Some coupon \<Rightarrow>
          if \<not> isActive coupon then None
          else if today < validFrom coupon \<or> today > validUntil coupon then None
          else if (case minimumAmount coupon of None \<Rightarrow> False | Some m \<Rightarrow> amount < m) then None
          else if (case usageLimit coupon of
                     None \<Rightarrow> False
                   | Some l \<Rightarrow> l \<noteq> 0 \<and> usedCount coupon \<ge> l) then None
          else Some coupon)"

subsection \<open>createOrder (order.service.ts, lines 183-329)\<close>

text \<open>
  Lines 208-235: the validation loop. It reads the store and writes nothing;
  it returns the first error, or the subtotal and the order items it built.
\<close>

fun validateItems ::
  "(ident \<rightharpoonup> Product) \<Rightarrow> CreateOrderItemRequest list \<Rightarrow> rat \<Rightarrow> OrderItemData list
     \<Rightarrow> error + (rat \<times> OrderItemData list)" where
  "validateItems ps [] sub acc = Inr (sub, acc)"
| "validateItems ps (item # rest) sub acc =
     (case ps (productId item) of
        None \<Rightarrow> Inl (AppError (''Product with ID '' @ productId item @ '' not found'') 404)
      | Some product \<Rightarrow>
          if \<not> inStock product \<or> stockCount product < quantity item
          then Inl (AppError (''Insufficient stock for product '' @ name product) 400)
          else validateItems ps rest (sub + price product * of_int (quantity item))
                 (acc @ [\<lparr>item_productId = productId item,
                           item_quantity = quantity item,
                           item_price = price product,
                           item_selectedColor = orNull (selectedColor item),
                           item_selectedSize = orNull (selectedSize item)\<rparr>]))"

text \<open>
  Lines 246-253: the discount of a coupon the validator returned.
  \<^verbatim>\<open>coupon.maximumDiscount\<close> is a \<^verbatim>\<open>number\<close> by the Coupon interface of
  \<^verbatim>\<open>src/types/order.types.ts\<close>; the guard is its truthiness, so 0 is no cap.
\<close>

definition couponDiscount :: "Coupon \<Rightarrow> rat \<Rightarrow> rat" where
  "couponDiscount coupon sub =
     (if coupon_type coupon = percentage
      then (let d = (sub * coupon_value coupon) / 100
            in case maximumDiscount coupon of
                 None \<Rightarrow> d
               | Some cap \<Rightarrow> if cap \<noteq> 0 then min d cap else d)
      else coupon_value coupon)"

text \<open>
  Lines 241-255: the discount of the request. \<^verbatim>\<open>if (couponCode)\<close> is a
  truthiness test: an absent code and the empty string are falsy.
\<close>

definition orderDiscount :: "date \<Rightarrow> string option \<Rightarrow> rat \<Rightarrow> db \<Rightarrow> rat" where
  "orderDiscount today cc sub s =
     (case cc of
        None \<Rightarrow> 0
      | Some c \<Rightarrow>
          if c = [] then 0
          else (case validateCoupon today c sub s of
                  None \<Rightarrow> 0
                | Some coupon \<Rightarrow> couponDiscount coupon sub))"

text \<open>Lines 302-312: one relative decrement per line item, in request order.\<close>

fun decrementStock :: "CreateOrderItemRequest list \<Rightarrow> db \<Rightarrow> (error + unit) \<times> db" where
  "decrementStock [] s = (Inr (), s)"
| "decrementStock (item # rest) s =
     (case product_increment_stock (productId item) (- quantity item) s of
        (Inl e, s') \<Rightarrow> (Inl e, s')
      | (Inr u, s') \<Rightarrow> decrementStock rest s')"

definition createOrder :: "env \<Rightarrow> ident \<Rightarrow> CreateOrderRequest \<Rightarrow> db \<Rightarrow> (error + Order) \<times> db" where
  "createOrder e uid req s =
     (let s1 = address_create (newShippingAddressId e) SHIPPING uid (shippingAddress req) s;
          s2 = address_create (newBillingAddressId e) BILLING uid (billingAddress req) s1
      in case validateItems (products s2) (items req) 0 [] of
           Inl err \<Rightarrow> (Inl err, s2)
         | Inr (sub, its) \<Rightarrow>
             (let ship = calculateShipping sub;
                  tx = calculateTax (sub + ship) defaultTaxRate;
                  disc = orderDiscount (now e) (couponCode req) sub s2;
                  tot = sub + ship + tx - disc;
                  ord = \<lparr>order_id = newOrderId e,
                         orderNumber = newOrderNumber e,
                         userId = uid,
                         subtotal = sub,
                         shipping = ship,
                         tax = tx,
                         discount = disc,
                         total = tot,
                         status = PENDING,
                         paymentMethod = CASH_ON_DELIVERY,
                         paymentStatus = PAYMENT_PENDING,
                         order_notes = request_notes req,
                         shippingAddressId = newShippingAddressId e,
                         billingAddressId = newBillingAddressId e,
                         trackingNumber = None,
                         estimatedDelivery = None\<rparr>;
                  s3 = order_create ord its s2
              in case decrementStock (items req) s3 of
                   (Inl err, s4) \<Rightarrow> (Inl err, s4)
                 | (Inr u, s4) \<Rightarrow>
                     (case couponCode req of
                        None \<Rightarrow> (Inr ord, s4)
                      | Some c \<Rightarrow>
                          if c = [] then (Inr ord, s4)
                          else (case coupon_increment_used c s4 of
                                  (Inl err, s5) \<Rightarrow> (Inl err, s5)
                                | (Inr u', s5) \<Rightarrow> (Inr ord, s5)))))"

subsection \<open>updateOrder (order.service.ts, lines 331-370)\<close>

text \<open>The patch sets exactly the columns it carries.\<close>

definition applyPatch :: "UpdateOrderRequest \<Rightarrow> Order \<Rightarrow> Order" where
  "applyPatch p ord =
     ord\<lparr>status := (case patch_status p of None \<Rightarrow> status ord | Some v \<Rightarrow> v),
         trackingNumber :=
           (case patch_trackingNumber p of None \<Rightarrow> trackingNumber ord | Some v \<Rightarrow> Some v),
         estimatedDelivery :=
           (case patch_estimatedDelivery p of None \<Rightarrow> estimatedDelivery ord | Some v \<Rightarrow> Some v),
         order_notes := (case patch_notes p of None \<Rightarrow> order_notes ord | Some v \<Rightarrow> Some v)\<rparr>"

definition updateOrder :: "ident \<Rightarrow> UpdateOrderRequest \<Rightarrow> db \<Rightarrow> (error + Order) \<times> db" where
  "updateOrder oid p s =
     (case orders s oid of
        None \<Rightarrow> (Inl (AppError ''Order not found'' 404), s)
      | Some ord \<Rightarrow> order_update oid (applyPatch p) s)"

subsection \<open>cancelOrder (order.service.ts, lines 372-435)\<close>

text \<open>\<^verbatim>\<open>prisma.order.findFirst({ where: { id: orderId, userId } })\<close>.\<close>

definition findOrderOfUser :: "ident \<Rightarrow> ident \<Rightarrow> db \<Rightarrow> Order option" where
  "findOrderOfUser oid uid s =
     (case orders s oid of
        None \<Rightarrow> None
      | Some ord \<Rightarrow> if userId ord = uid then Some ord else None)"

text \<open>\<^verbatim>\<open>prisma.orderItem.findMany({ where: { orderId } })\<close>.\<close>

definition itemsOfOrder :: "ident \<Rightarrow> db \<Rightarrow> OrderItem list" where
  "itemsOfOrder oid s = filter (\<lambda>i. item_orderId i = oid) (orderItems s)"

text \<open>Lines 395-404: one relative increment per order item.\<close>

fun restoreStock :: "OrderItem list \<Rightarrow> db \<Rightarrow> (error + unit) \<times> db" where
  "restoreStock [] s = (Inr (), s)"
| "restoreStock (item # rest) s =
     (case product_increment_stock (item_productId item) (item_quantity item) s of
        (Inl e, s') \<Rightarrow> (Inl e, s')
      | (Inr u, s') \<Rightarrow> restoreStock rest s')"

definition cancelOrder :: "ident \<Rightarrow> ident \<Rightarrow> db \<Rightarrow> (error + Order) \<times> db" where
  "cancelOrder uid oid s =
     (case findOrderOfUser oid uid s of
        None \<Rightarrow> (Inl (AppError ''Order not found'' 404), s)
      | Some ord \<Rightarrow>
          if status ord = CANCELLED then (Inl (AppError ''Order is already cancelled'' 400), s)
          else if status ord = DELIVERED then (Inl (AppError ''Cannot cancel delivered order'' 400), s)
          else (case restoreStock (itemsOfOrder oid s) s of
                  (Inl e, s1) \<Rightarrow> (Inl e, s1)
                | (Inr u, s1) \<Rightarrow> order_update oid (\<lambda>r. r\<lparr>status := CANCELLED\<rparr>) s1))"

subsection \<open>Notions the statements use\<close>


text \<open>A line fails validation: its product is missing, or is out of stock for the quantity.\<close>

definition itemFails :: "(ident \<rightharpoonup> Product) \<Rightarrow> CreateOrderItemRequest \<Rightarrow> bool" where
  "itemFails ps item =
     (case ps (productId item) of
        None \<Rightarrow> True
      | Some p \<Rightarrow> \<not> inStock p \<or> stockCount p < quantity item)"

text \<open>The error of a failing line: NotFound (404) or InsufficientStock (400).\<close>

definition itemError :: "(ident \<rightharpoonup> Product) \<Rightarrow> CreateOrderItemRequest \<Rightarrow> error" where
  "itemError ps item =
     (case ps (productId item) of
        None \<Rightarrow> AppError (''Product with ID '' @ productId item @ '' not found'') 404
      | Some p \<Rightarrow> AppError (''Insufficient stock for product '' @ name p) 400)"

text \<open>
  The spec's applicability of a coupon, in its own words: active, now within
  \<open>[validFrom, validUntil]\<close> inclusive, order amount at least the minimum if
  one is set, and usedCount below the usage limit if one is set.
\<close>

definition applicable_as_specified :: "date \<Rightarrow> rat \<Rightarrow> Coupon \<Rightarrow> bool" where
  "applicable_as_specified today amount c =
     (isActive c \<and> validFrom c \<le> today \<and> today \<le> validUntil c \<and>
      (case minimumAmount c of None \<Rightarrow> True | Some m \<Rightarrow> amount \<ge> m) \<and>
      (case usageLimit c of None \<Rightarrow> True | Some l \<Rightarrow> usedCount c < l))"

text \<open>The same with a usage limit of 0 standing for no limit.\<close>

definition applicable :: "date \<Rightarrow> rat \<Rightarrow> Coupon \<Rightarrow> bool" where
  "applicable today amount c =
     (isActive c \<and> validFrom c \<le> today \<and> today \<le> validUntil c \<and>
      (case minimumAmount c of None \<Rightarrow> True | Some m \<Rightarrow> amount \<ge> m) \<and>
      (case usageLimit c of None \<Rightarrow> True | Some l \<Rightarrow> l = 0 \<or> usedCount c < l))"



text \<open>The units of product \<open>pid\<close> on the items of order \<open>oid\<close>.\<close>

definition orderedQuantity :: "ident \<Rightarrow> db \<Rightarrow> ident \<Rightarrow> int" where
  "orderedQuantity oid s pid =
     sum_list (map item_quantity (filter (\<lambda>i. item_productId i = pid) (itemsOfOrder oid s)))"

text \<open>Every item of the order refers to a product of the store (the foreign key).\<close>

definition itemsHaveProducts :: "ident \<Rightarrow> db \<Rightarrow> bool" where
  "itemsHaveProducts oid s =
     list_all (\<lambda>i. products s (item_productId i) \<noteq> None) (itemsOfOrder oid s)"


text \<open>
  The product table after every item of a list has given its quantity back:
  each product gains the quantities of the items that refer to it.
\<close>

definition restored :: "OrderItem list \<Rightarrow> (ident \<rightharpoonup> Product) \<Rightarrow> (ident \<rightharpoonup> Product)" where
  "restored its ps =
     (\<lambda>pid. map_option
        (\<lambda>p. p\<lparr>stockCount := stockCount p +
           sum_list (map item_quantity (filter (\<lambda>i. item_productId i = pid) its))\<rparr>)
        (ps pid))"

subsection \<open>Example data\<close>

definition exampleAddress :: Address where
  "exampleAddress =
     \<lparr>firstName = ''Ada'', lastName = ''Lovelace'', street = ''1 Rose Lane'', city = ''Leeds'',
      state = ''Yorkshire'', zipCode = ''LS1'', country = ''UK'', phone = None, isDefault = None\<rparr>"

definition exampleEnv :: env where
  "exampleEnv =
     \<lparr>now = 500, newOrderNumber = ''FH-000001-ABCD'', newShippingAddressId = ''a1'',
      newBillingAddressId = ''a2'', newOrderId = ''o1''\<rparr>"

text \<open>The two coupons of the seed script.\<close>

definition WELCOME10 :: Coupon where
  "WELCOME10 =
     \<lparr>code = ''WELCOME10'', coupon_type = percentage, coupon_value = 10,
      minimumAmount = Some 25, maximumDiscount = None, usageLimit = Some 1000, usedCount = 0,
      isActive = True, validFrom = 0, validUntil = 1000\<rparr>"

definition SAVE20 :: Coupon where
  "SAVE20 =
     \<lparr>code = ''SAVE20'', coupon_type = fixed, coupon_value = 20,
      minimumAmount = Some 100, maximumDiscount = None, usageLimit = Some 500, usedCount = 0,
      isActive = True, validFrom = 0, validUntil = 1000\<rparr>"

text \<open>A percentage coupon whose usage limit and cap are both 0, used three times.\<close>

definition ZEROS :: Coupon where
  "ZEROS =
     \<lparr>code = ''ZEROS'', coupon_type = percentage, coupon_value = 10,
      minimumAmount = None, maximumDiscount = Some 0, usageLimit = Some 0, usedCount = 3,
      isActive = True, validFrom = 0, validUntil = 1000\<rparr>"

text \<open>A fixed coupon worth more than a small order.\<close>

definition TAKE100 :: Coupon where
  "TAKE100 =
     \<lparr>code = ''TAKE100'', coupon_type = fixed, coupon_value = 100,
      minimumAmount = None, maximumDiscount = None, usageLimit = None, usedCount = 0,
      isActive = True, validFrom = 0, validUntil = 1000\<rparr>"

definition rose :: Product where
  "rose = \<lparr>name = ''Rose'', price = 10, stockCount = 5, inStock = True\<rparr>"

definition tulip :: Product where
  "tulip = \<lparr>name = ''Tulip'', price = 25 / 2, stockCount = 20, inStock = True\<rparr>"

definition exampleDb :: db where
  "exampleDb =
     \<lparr>products = [''p1'' \<mapsto> rose, ''p2'' \<mapsto> tulip],
      coupons = [''WELCOME10'' \<mapsto> WELCOME10, ''SAVE20'' \<mapsto> SAVE20, ''ZEROS'' \<mapsto> ZEROS,
                 ''TAKE100'' \<mapsto> TAKE100],
      addresses = [],
      orders = Map.empty,
      orderItems = []\<rparr>"

definition line :: "ident \<Rightarrow> int \<Rightarrow> CreateOrderItemRequest" where
  "line pid q = \<lparr>productId = pid, quantity = q, selectedColor = None, selectedSize = None\<rparr>"

definition request :: "CreateOrderItemRequest list \<Rightarrow> string option \<Rightarrow> CreateOrderRequest" where
  "request its cc =
     \<lparr>items = its, shippingAddress = exampleAddress, billingAddress = exampleAddress,
      request_notes = None, couponCode = cc\<rparr>"

text \<open>An order as createOrder leaves it, with the given id, owner, amounts and status.\<close>

definition placedOrder :: "ident \<Rightarrow> ident \<Rightarrow> rat \<Rightarrow> rat \<Rightarrow> rat \<Rightarrow> rat \<Rightarrow> OrderStatus \<Rightarrow> Order" where
  "placedOrder oid uid sub ship tx disc st =
     \<lparr>order_id = oid, orderNumber = ''FH-000001-ABCD'', userId = uid, subtotal = sub,
      shipping = ship, tax = tx, discount = disc, total = sub + ship + tx - disc,
      status = st, paymentMethod = CASH_ON_DELIVERY, paymentStatus = PAYMENT_PENDING,
      order_notes = None, shippingAddressId = ''a1'', billingAddressId = ''a2'',
      trackingNumber = None, estimatedDelivery = None\<rparr>"

definition orderLine :: "ident \<Rightarrow> ident \<Rightarrow> int \<Rightarrow> rat \<Rightarrow> OrderItem" where
  "orderLine oid pid q pr =
     \<lparr>item_productId = pid, item_quantity = q, item_price = pr, item_selectedColor = None,
      item_selectedSize = None, item_orderId = oid\<rparr>"

text \<open>
  A store holding two orders of user \<open>u1\<close>: \<open>o7\<close>, pending, with two lines of
  roses and one of tulips; \<open>o8\<close>, delivered, with one line of roses.
\<close>

definition storeWithOrders :: db where
  "storeWithOrders =
     exampleDb
       \<lparr>orders := [''o7'' \<mapsto> placedOrder ''o7'' ''u1'' (125 / 2) 0 5 0 PENDING,
                    ''o8'' \<mapsto> placedOrder ''o8'' ''u1'' 10 (999 / 100) (8 / 5) 0 DELIVERED],
        orderItems := [orderLine ''o7'' ''p1'' 3 10, orderLine ''o8'' ''p1'' 1 10,
                       orderLine ''o7'' ''p2'' 1 (25 / 2), orderLine ''o7'' ''p1'' 2 10]\<rparr>"

section \<open>Properties\<close>

subsection \<open>Auxiliary facts\<close>

lemma floor_rat_numeral [simp]:
  "\<lfloor>(numeral a / numeral b :: rat)\<rfloor> = numeral a div numeral b"
  using floor_divide_of_int_eq [of "numeral a" "numeral b", where ?'a = rat] by simp

lemmas example_defs = exampleAddress_def exampleEnv_def WELCOME10_def SAVE20_def ZEROS_def
  TAKE100_def rose_def tulip_def exampleDb_def line_def request_def placedOrder_def
  orderLine_def storeWithOrders_def

lemmas model_defs = createOrder_def address_create_def order_create_def calculateShipping_def
  calculateTax_def defaultTaxRate_def Math_round_def orderDiscount_def validateCoupon_def
  couponDiscount_def toUpperCase_def upperChar_def product_increment_stock_def
  coupon_increment_used_def orNull_def truthyString_def




lemma address_create_frame [simp]:
  "products (address_create a t u d s) = products s"
  "coupons (address_create a t u d s) = coupons s"
  "orders (address_create a t u d s) = orders s"
  "orderItems (address_create a t u d s) = orderItems s"
  by (simp_all add: address_create_def)




subsection \<open>Auxiliary facts on the loops\<close>

text \<open>The validation loop stops at the first failing line, with that line's error.\<close>

lemma validateItems_failure:
  "find (itemFails ps) its = Some item \<Longrightarrow> validateItems ps its sub acc = Inl (itemError ps item)"
proof (induction its arbitrary: sub acc)
  case Nil
  then show ?case by simp
next
  case (Cons i rest)
  show ?case
  proof (cases "itemFails ps i")
    case True
    with Cons.prems have "item = i" by simp
    with True show ?thesis
      by (auto simp: itemFails_def itemError_def split: option.splits)
  next
    case False
    with Cons.prems have "find (itemFails ps) rest = Some item" by simp
    from Cons.IH [OF this] False show ?thesis
      by (auto simp: itemFails_def split: option.splits)
  qed
qed

lemma list_ex_find: "list_ex P xs \<Longrightarrow> \<exists>x. find P xs = Some x"
  by (induction xs) auto

text \<open>The units a list of order items gives back, product by product.\<close>

lemma restored_Nil: "restored [] ps = ps"
proof
  fix pid show "restored [] ps pid = ps pid"
    by (cases "ps pid") (simp_all add: restored_def)
qed

lemma restored_Cons:
  assumes "ps (item_productId i) = Some p"
  shows "restored rest (ps(item_productId i \<mapsto> p\<lparr>stockCount := stockCount p + item_quantity i\<rparr>))
         = restored (i # rest) ps"
proof
  fix pid
  show "restored rest (ps(item_productId i \<mapsto> p\<lparr>stockCount := stockCount p + item_quantity i\<rparr>)) pid
         = restored (i # rest) ps pid"
    using assms by (cases "ps pid") (auto simp: restored_def)
qed

lemma restoreStock_restored:
  "list_all (\<lambda>i. products s (item_productId i) \<noteq> None) its \<Longrightarrow>
     restoreStock its s = (Inr (), s\<lparr>products := restored its (products s)\<rparr>)"
proof (induction its arbitrary: s)
  case Nil
  then show ?case by (simp add: restored_Nil)
next
  case (Cons i rest)
  from Cons.prems obtain p where p: "products s (item_productId i) = Some p"
    by auto
  let ?s' = "s\<lparr>products := (products s)(item_productId i \<mapsto>
                p\<lparr>stockCount := stockCount p + item_quantity i\<rparr>)\<rparr>"
  have step: "product_increment_stock (item_productId i) (item_quantity i) s = (Inr (), ?s')"
    using p by (simp add: product_increment_stock_def)
  have "list_all (\<lambda>j. products ?s' (item_productId j) \<noteq> None) rest"
    using Cons.prems by (auto simp: list_all_iff)
  from Cons.IH [OF this] have "restoreStock rest ?s' =
      (Inr (), ?s'\<lparr>products := restored rest (products ?s')\<rparr>)" .
  with step show ?case
    by (simp add: restored_Cons [of "products s" i p rest, OF p])
qed




text \<open>
  cancelOrder leaves the coupon table as it is, whether it succeeds or throws:
  a cancellation never gives a coupon use back.
\<close>

lemma restoreStock_keeps_coupons: "coupons (snd (restoreStock its s)) = coupons s"
proof (induction its arbitrary: s)
  case Nil
  then show ?case by simp
next
  case (Cons i rest)
  show ?case
  proof (cases "products s (item_productId i)")
    case None
    then show ?thesis by (simp add: product_increment_stock_def)
  next
    case (Some p)
    then show ?thesis
      using Cons.IH [of "s\<lparr>products := (products s)(item_productId i \<mapsto>
                           p\<lparr>stockCount := stockCount p + item_quantity i\<rparr>)\<rparr>"]
      by (simp add: product_increment_stock_def)
  qed
qed

lemma cancelOrder_keeps_coupons: "coupons (snd (cancelOrder uid oid s)) = coupons s"
proof -
  obtain r s1 where rs: "restoreStock (itemsOfOrder oid s) s = (r, s1)"
    by (cases "restoreStock (itemsOfOrder oid s) s")
  then have "coupons s1 = coupons s"
    using restoreStock_keeps_coupons [of "itemsOfOrder oid s" s] by simp
  with rs show ?thesis
    by (cases r)
       (auto simp: cancelOrder_def order_update_def split: option.splits)
qed

subsection \<open>Pricing\<close>



subsection \<open>Stock\<close>

text \<open>
  Claim C1 says that createOrder never leaves a stockCount negative: it fails
  with InsufficientStock whenever the quantities requested for one product,
  summed over all the line items that refer to it, exceed its stockCount. The
  code checks each line item against the stockCount on its own and then
  decrements once per line item. With 5 roses in stock, a request with two
  lines of 3 roses each passes the check of both lines; the order is created
  and the stockCount of the rose ends at -1.
\<close>

theorem createOrder_repeated_product_oversells:
  "fst (createOrder exampleEnv ''u1'' (request [line ''p1'' 3, line ''p1'' 3] None) exampleDb) =
     Inr (placedOrder ''o1'' ''u1'' 60 0 (480 / 100) 0 PENDING) \<and>
   map_option stockCount (products exampleDb ''p1'') = Some 5 \<and>
   map_option stockCount
     (products (snd (createOrder exampleEnv ''u1'' (request [line ''p1'' 3, line ''p1'' 3] None)
        exampleDb)) ''p1'') = Some (- 1)"
  by (simp add: example_defs model_defs Let_def)

subsection \<open>Failure of the validation\<close>

text \<open>
  Claim C2, as stated, says that when a requested product is missing or short
  of stock createOrder has written nothing when it returns the error. The
  code creates the two address rows before it looks at the first product: at
  a request for the unknown product \<open>p9\<close>, the error is returned and the
  address table, empty before, holds the shipping and the billing row.
\<close>

theorem createOrder_writes_addresses_before_validation:
  "fst (createOrder exampleEnv ''u1'' (request [line ''p9'' 1] None) exampleDb) =
     Inl (AppError ''Product with ID p9 not found'' 404) \<and>
   addresses exampleDb = [] \<and>
   map address_type
     (addresses (snd (createOrder exampleEnv ''u1'' (request [line ''p9'' 1] None) exampleDb))) =
     [SHIPPING, BILLING]"
  by (simp add: example_defs model_defs Let_def)

text \<open>
  Claim C2, amended. For every createOrder request in which some line item's
  product is missing or fails the stock check, createOrder returns the
  NotFound or InsufficientStock error of the first such line item; the store
  it leaves is the one it was given with the shipping and the billing address
  rows appended and nothing else changed: no order, no order item, no stock
  change and no coupon change.
\<close>

theorem createOrder_validation_failure:
  assumes "list_ex (itemFails (products s)) (items req)"
  shows "\<exists>item. find (itemFails (products s)) (items req) = Some item \<and>
           createOrder e uid req s =
             (Inl (itemError (products s) item),
              s\<lparr>addresses := addresses s @
                 [\<lparr>address_id = newShippingAddressId e, address_type = SHIPPING,
                   address_userId = uid, address_data = shippingAddress req\<rparr>,
                  \<lparr>address_id = newBillingAddressId e, address_type = BILLING,
                   address_userId = uid, address_data = billingAddress req\<rparr>]\<rparr>)"
proof -
  from assms obtain item where f: "find (itemFails (products s)) (items req) = Some item"
    using list_ex_find by blast
  have "validateItems (products s) (items req) 0 [] = Inl (itemError (products s) item)"
    by (rule validateItems_failure [OF f])
  then have "createOrder e uid req s =
             (Inl (itemError (products s) item),
              s\<lparr>addresses := addresses s @
                 [\<lparr>address_id = newShippingAddressId e, address_type = SHIPPING,
                   address_userId = uid, address_data = shippingAddress req\<rparr>,
                  \<lparr>address_id = newBillingAddressId e, address_type = BILLING,
                   address_userId = uid, address_data = billingAddress req\<rparr>]\<rparr>)"
    by (simp add: createOrder_def Let_def address_create_def)
  with f show ?thesis by blast
qed

theorem createOrder_validation_failure_witness:
  "list_ex (itemFails (products exampleDb)) [line ''p1'' 1, line ''p9'' 1, line ''p1'' 9] \<and>
   createOrder exampleEnv ''u1'' (request [line ''p1'' 1, line ''p9'' 1, line ''p1'' 9] None) exampleDb =
     (Inl (AppError ''Product with ID p9 not found'' 404),
      exampleDb\<lparr>addresses :=
        [\<lparr>address_id = ''a1'', address_type = SHIPPING, address_userId = ''u1'',
          address_data = exampleAddress\<rparr>,
         \<lparr>address_id = ''a2'', address_type = BILLING, address_userId = ''u1'',
          address_data = exampleAddress\<rparr>]\<rparr>)"
proof -
  have h: "list_ex (itemFails (products exampleDb))
             (items (request [line ''p1'' 1, line ''p9'' 1, line ''p1'' 9] None))"
    by (simp add: example_defs itemFails_def)
  from createOrder_validation_failure [OF h, of exampleEnv "''u1''"] h show ?thesis
    by (simp add: example_defs itemFails_def itemError_def)
qed

subsection \<open>Coupon usage\<close>

text \<open>
  Claim C3 says that a successful createOrder increments the usedCount of the
  named coupon exactly when the coupon was applied, and leaves it unchanged
  when the validator rejected the coupon. The code increments whenever a code
  was named (line 315 tests \<^verbatim>\<open>couponCode\<close>, under the comment "Update
  coupon usage if applied"). For a subtotal of 25 and the coupon SAVE20, whose
  minimum is 100, the validator returns null, the order is created with
  discount 0, and the usedCount of SAVE20 goes from 0 to 1. (The last part of
  the claim holds: cancelOrder never changes a usedCount, by
  \<open>cancelOrder_keeps_coupons\<close>.)
\<close>

theorem createOrder_counts_rejected_coupon:
  "validateCoupon 500 ''SAVE20'' 25 exampleDb = None \<and>
   fst (createOrder exampleEnv ''u1'' (request [line ''p2'' 2] (Some ''SAVE20'')) exampleDb) =
     Inr (placedOrder ''o1'' ''u1'' 25 (599 / 100) (248 / 100) 0 PENDING) \<and>
   map_option usedCount (coupons exampleDb ''SAVE20'') = Some 0 \<and>
   map_option usedCount
     (coupons (snd (createOrder exampleEnv ''u1'' (request [line ''p2'' 2] (Some ''SAVE20''))
        exampleDb)) ''SAVE20'') = Some 1"
  by (simp add: example_defs model_defs Let_def)

text \<open>
  Claim C6 says that naming a coupon that is not applicable, a nonexistent
  one included, never turns the creation of the order into an error. With the
  code \<open>NOPE\<close>, under which no coupon is stored, the validator returns null
  and the order is written with discount 0 and the stock decremented; the
  update of the coupon's usage then finds no row and throws, so the caller
  gets the error and not the order.
\<close>

theorem createOrder_unknown_coupon_throws:
  "validateCoupon 500 ''NOPE'' 25 exampleDb = None \<and>
   fst (createOrder exampleEnv ''u1'' (request [line ''p2'' 2] (Some ''NOPE'')) exampleDb) =
     Inl (RecordNotFound ''Coupon'') \<and>
   orders (snd (createOrder exampleEnv ''u1'' (request [line ''p2'' 2] (Some ''NOPE'')) exampleDb))
     ''o1'' = Some (placedOrder ''o1'' ''u1'' 25 (599 / 100) (248 / 100) 0 PENDING) \<and>
   map_option stockCount
     (products (snd (createOrder exampleEnv ''u1'' (request [line ''p2'' 2] (Some ''NOPE''))
        exampleDb)) ''p2'') = Some 18"
  by (simp add: example_defs model_defs Let_def)

subsection \<open>Coupon validation\<close>

text \<open>
  Claim C5, as stated, makes \<open>usedCount < usageLimit\<close> a condition whenever
  a limit is set. The coupon ZEROS has the limit 0 and was used 3 times; the
  validator returns it.
\<close>

theorem validateCoupon_zero_limit_counterexample:
  "validateCoupon 500 ''zeros'' 30 exampleDb = Some ZEROS \<and>
   usageLimit ZEROS = Some 0 \<and> usedCount ZEROS = 3 \<and>
   \<not> applicable_as_specified 500 30 ZEROS"
  by (simp add: example_defs model_defs applicable_as_specified_def)

text \<open>
  Claim C5, amended. For every code and order amount, validateCoupon returns
  the coupon stored under the upper-cased code exactly when that coupon
  exists, is active, the current time lies within \<open>[validFrom, validUntil]\<close>
  inclusive, the order amount is at least the minimum when a minimum is set,
  and usedCount is below the usage limit when a limit other than 0 is set (a
  limit of 0 is no limit); it returns null, and throws nothing, exactly when
  one of these fails.
\<close>

theorem validateCoupon_applicable:
  "(validateCoupon today c amount s = Some coupon \<longleftrightarrow>
      coupons s (toUpperCase c) = Some coupon \<and> applicable today amount coupon) \<and>
   (validateCoupon today c amount s = None \<longleftrightarrow>
      \<not> (\<exists>cp. coupons s (toUpperCase c) = Some cp \<and> applicable today amount cp))"
  by (auto simp: validateCoupon_def applicable_def split: option.splits)

subsection \<open>Discount\<close>






subsection \<open>Cancellation\<close>

text \<open>
  Claim C7. In a store where the items of the order refer to existing
  products (the foreign key of the order-item table), cancelOrder succeeds
  exactly when an order with that id belongs to that user and its status is
  neither Cancelled nor Delivered. On success every product gains the
  quantity of each item of the order that refers to it, the status of the
  order becomes Cancelled, and nothing else changes. On failure (no order of
  that id for that user, already Cancelled, Delivered) the corresponding error
  is returned and the store is unchanged.
\<close>

theorem cancelOrder_restores_stock:
  assumes "itemsHaveProducts oid s"
  shows "cancelOrder uid oid s =
     (case orders s oid of
        None \<Rightarrow> (Inl (AppError ''Order not found'' 404), s)
      | Some ord \<Rightarrow>
          if userId ord \<noteq> uid then (Inl (AppError ''Order not found'' 404), s)
          else if status ord = CANCELLED
            then (Inl (AppError ''Order is already cancelled'' 400), s)
          else if status ord = DELIVERED
            then (Inl (AppError ''Cannot cancel delivered order'' 400), s)
          else (Inr (ord\<lparr>status := CANCELLED\<rparr>),
                s\<lparr>products :=
                    (\<lambda>pid. map_option
                       (\<lambda>p. p\<lparr>stockCount := stockCount p + orderedQuantity oid s pid\<rparr>)
                       (products s pid)),
                  orders := (orders s)(oid \<mapsto> ord\<lparr>status := CANCELLED\<rparr>)\<rparr>))"
proof -
  have r: "restoreStock (itemsOfOrder oid s) s =
      (Inr (), s\<lparr>products := restored (itemsOfOrder oid s) (products s)\<rparr>)"
    using assms by (intro restoreStock_restored) (simp add: itemsHaveProducts_def)
  have e: "restored (itemsOfOrder oid s) (products s) =
      (\<lambda>pid. map_option
         (\<lambda>p. p\<lparr>stockCount := stockCount p + orderedQuantity oid s pid\<rparr>) (products s pid))"
    by (simp add: restored_def orderedQuantity_def)
  show ?thesis
    by (simp add: cancelOrder_def findOrderOfUser_def r e order_update_def split: option.splits)
qed

theorem cancelOrder_restores_stock_witness:
  "itemsHaveProducts ''o7'' storeWithOrders \<and>
   fst (cancelOrder ''u1'' ''o7'' storeWithOrders) =
     Inr (placedOrder ''o7'' ''u1'' (125 / 2) 0 5 0 CANCELLED) \<and>
   map_option stockCount (products storeWithOrders ''p1'') = Some 5 \<and>
   map_option stockCount (products (snd (cancelOrder ''u1'' ''o7'' storeWithOrders)) ''p1'') = Some 10 \<and>
   map_option stockCount (products storeWithOrders ''p2'') = Some 20 \<and>
   map_option stockCount (products (snd (cancelOrder ''u1'' ''o7'' storeWithOrders)) ''p2'') = Some 21 \<and>
   map_option status (orders (snd (cancelOrder ''u1'' ''o7'' storeWithOrders)) ''o7'') = Some CANCELLED \<and>
   itemsHaveProducts ''o8'' storeWithOrders \<and>
   cancelOrder ''u1'' ''o8'' storeWithOrders =
     (Inl (AppError ''Cannot cancel delivered order'' 400), storeWithOrders) \<and>
   cancelOrder ''u2'' ''o7'' storeWithOrders = (Inl (AppError ''Order not found'' 404), storeWithOrders)"
proof -
  have h7: "itemsHaveProducts ''o7'' storeWithOrders"
    by (simp add: itemsHaveProducts_def itemsOfOrder_def example_defs)
  have h8: "itemsHaveProducts ''o8'' storeWithOrders"
    by (simp add: itemsHaveProducts_def itemsOfOrder_def example_defs)
  have q1: "orderedQuantity ''o7'' storeWithOrders ''p1'' = 5"
    by (simp add: orderedQuantity_def itemsOfOrder_def example_defs)
  have q2: "orderedQuantity ''o7'' storeWithOrders ''p2'' = 1"
    by (simp add: orderedQuantity_def itemsOfOrder_def example_defs)
  have o7: "orders storeWithOrders ''o7'' = Some (placedOrder ''o7'' ''u1'' (125 / 2) 0 5 0 PENDING)"
    by (simp add: storeWithOrders_def)
  have o8: "orders storeWithOrders ''o8'' =
      Some (placedOrder ''o8'' ''u1'' 10 (999 / 100) (8 / 5) 0 DELIVERED)"
    by (simp add: storeWithOrders_def)
  have p: "products storeWithOrders ''p1'' = Some rose" "products storeWithOrders ''p2'' = Some tulip"
    by (simp_all add: storeWithOrders_def exampleDb_def)
  note c7 = cancelOrder_restores_stock [OF h7, of "''u1''"]
  note c7' = cancelOrder_restores_stock [OF h7, of "''u2''"]
  note c8 = cancelOrder_restores_stock [OF h8, of "''u1''"]
  from c7 c7' c8 h7 h8 show ?thesis
    by (simp add: o7 o8 p q1 q2 placedOrder_def rose_def tulip_def)
qed

subsection \<open>Administrative update\<close>

text \<open>
  Claim C9. For every order id and every patch (status, tracking number,
  estimated delivery, notes), updateOrder leaves the stockCount of every
  product and the usedCount of every coupon unchanged: the product and coupon
  tables after the call are those before it. For an existing order the call
  succeeds and stores the patched row, so also a change of status to Shipped
  touches no inventory.
\<close>

theorem updateOrder_frame:
  "products (snd (updateOrder oid p s)) = products s \<and>
   coupons (snd (updateOrder oid p s)) = coupons s \<and>
   (case orders s oid of
      None \<Rightarrow> updateOrder oid p s = (Inl (AppError ''Order not found'' 404), s)
    | Some ord \<Rightarrow>
        updateOrder oid p s =
          (Inr (applyPatch p ord), s\<lparr>orders := (orders s)(oid \<mapsto> applyPatch p ord)\<rparr>))"
  by (simp add: updateOrder_def order_update_def split: option.splits)

end
